theory Spec2Isabelle
  imports Main "HOL-Library.Sublist"
begin

section \<open>Python strings\<close>

text \<open>
  A Python \<open>str\<close> is a sequence of Unicode code points, so it is modelled as a list of
  natural numbers. \<open>ascii\<close> turns a literal of the source into that representation.
\<close>

type_synonym pystr = "nat list"

definition ascii :: "string \<Rightarrow> pystr" where
  "ascii s = map of_char s"

text \<open>The code points for which \<open>str.isspace\<close> holds; \<open>str.strip()\<close> removes them
  from both ends.\<close>

definition py_isspace :: "nat \<Rightarrow> bool" where
  "py_isspace c =
     ((9 \<le> c \<and> c \<le> 13) \<or> (28 \<le> c \<and> c \<le> 32) \<or> c = 133 \<or> c = 160 \<or> c = 5760
      \<or> (8192 \<le> c \<and> c \<le> 8202) \<or> c = 8232 \<or> c = 8233 \<or> c = 8239 \<or> c = 8287
      \<or> c = 12288)"

definition strip :: "pystr \<Rightarrow> pystr" where
  "strip xs = rev (dropWhile py_isspace (rev (dropWhile py_isspace xs)))"


section \<open>The application state\<close>

text \<open>
  An exception is carried as the text \<open>str(e)\<close> that the handlers log and display.
  Calls into the speech engine, the audio device, the file system and the thread library
  may raise; whether they do is an input of each operation (the outcome parameters below).
  Calls into the widget toolkit and the logger are taken not to raise.
\<close>

type_synonym exn = pystr

datatype btn_state = NORMAL | DISABLED

datatype level = DEBUG | INFO | ERROR

datatype box = ShowInfo | ShowError

datatype sample_format = PaFloat32 | PaInt32 | PaInt24 | PaInt16 | PaInt8 | PaUInt8

datatype model = Model pystr

text \<open>
  Everything the program does to the outside world is recorded, in order, as an event:
  a log record on standard output, a modal message box, a file dialog, and each call into
  the speech engine, the audio device, the thread library and the file system, with the
  arguments the source passes.
\<close>

datatype event =
    Log level pystr
  | MessageBox box pystr pystr
  | AskDirectory
  | AskSaveAsFilename
  | PathExists pystr bool
  | ModelNew pystr bool
  | PyAudioNew
  | RecognizerNew "model option" nat
  | ThreadStart nat
  | StreamOpen sample_format nat nat bool nat
  | StreamStartStream
  | StreamRead nat bool
  | StreamStopStream
  | StreamClose
  | AudioTerminate
  | FileOpenWrite pystr
  | FileWrite pystr pystr

text \<open>The callbacks handed to \<open>root.after(0, ...)\<close>, run later by the main loop.\<close>

datatype callback =
    CbAddTranscript pystr
  | CbUpdatePartial pystr
  | CbUpdateStatus pystr pystr
  | CbUpdateStatusImpl pystr pystr
  | CbLogAppend level pystr

text \<open>Where a recognition thread stands in \<open>recognize_speech\<close>.\<close>

datatype pc = PcOpen | PcTest | PcBody | PcExcept exn | PcDone

record app =
  is_listening :: bool
  thread :: "nat option"
  model :: "model option"
  recognizer :: "(model option \<times> nat) option"
  audio :: "nat option"
  stream :: "nat option"
  model_path_var :: pystr
  start_button :: btn_state
  stop_button :: btn_state
  check_model_button :: btn_state
  status_label :: pystr
  status_indicator :: pystr
  transcript_text :: pystr
  debug_text :: "(pystr \<times> level) list"
  after_queue :: "callback list"
  workers :: "pc list"
  trace :: "event list"

subsection \<open>The text widget\<close>

text \<open>
  A Tk text widget always ends with a newline of its own. The field \<open>transcript_text\<close>
  holds the content before that newline: \<open>get("1.0", END)\<close> returns the content with
  the newline, \<open>insert(END, t)\<close> puts \<open>t\<close> before it, and \<open>delete("1.0", END)\<close>
  leaves only it.
\<close>

definition nl :: pystr where
  "nl = [10]"

definition text_get :: "pystr \<Rightarrow> pystr" where
  "text_get buf = buf @ nl"

definition text_insert_end :: "pystr \<Rightarrow> pystr \<Rightarrow> pystr" where
  "text_insert_end buf t = buf @ t"

definition text_delete_all :: "pystr \<Rightarrow> pystr" where
  "text_delete_all buf = []"

subsection \<open>Logging, dialogs and deferred callbacks\<close>

definition emit :: "event \<Rightarrow> app \<Rightarrow> app" where
  "emit e s = s\<lparr>trace := trace s @ [e]\<rparr>"

definition root_after :: "callback \<Rightarrow> app \<Rightarrow> app" where
  "root_after cb s = s\<lparr>after_queue := after_queue s @ [cb]\<rparr>"

text \<open>
  A log record goes to standard output and to \<open>TextHandler.emit\<close>, which schedules the
  insertion into the debug text widget with \<open>text_widget.after(0, append)\<close>.
\<close>

definition logmsg :: "level \<Rightarrow> pystr \<Rightarrow> app \<Rightarrow> app" where
  "logmsg lvl msg s = root_after (CbLogAppend lvl msg) (emit (Log lvl msg) s)"

definition messagebox :: "box \<Rightarrow> pystr \<Rightarrow> pystr \<Rightarrow> app \<Rightarrow> app" where
  "messagebox b title msg s = emit (MessageBox b title msg) s"

definition update_status :: "pystr \<Rightarrow> pystr \<Rightarrow> app \<Rightarrow> app" where
  "update_status status_text color s = root_after (CbUpdateStatusImpl status_text color) s"

definition update_status_impl :: "pystr \<Rightarrow> pystr \<Rightarrow> app \<Rightarrow> app" where
  "update_status_impl status_text color s =
     s\<lparr>status_label := ascii ''Status: '' @ status_text, status_indicator := color\<rparr>"

definition update_partial :: "pystr \<Rightarrow> app \<Rightarrow> app" where
  "update_partial text s = root_after (CbUpdatePartial text) s"

definition update_partial_impl :: "pystr \<Rightarrow> app \<Rightarrow> app" where
  "update_partial_impl text s =
     s\<lparr>status_label := ascii ''Status: Listening... [Partial: '' @ take 20 text
          @ (if length text > 20 then ascii ''...'' else []) @ ascii '']''\<rparr>"

definition add_transcript :: "pystr \<Rightarrow> app \<Rightarrow> app" where
  "add_transcript text s = root_after (CbAddTranscript text) s"

definition add_transcript_impl :: "pystr \<Rightarrow> app \<Rightarrow> app" where
  "add_transcript_impl text s =
     (if strip text \<noteq> [] then
        (let current_text = strip (text_get (transcript_text s))
         in if current_text \<noteq> [] then
              s\<lparr>transcript_text :=
                  text_insert_end (transcript_text s) (ascii '' '' @ strip text @ nl)\<rparr>
            else
              s\<lparr>transcript_text := text_insert_end (transcript_text s) (strip text @ nl)\<rparr>)
      else s)"

definition clear_transcript :: "app \<Rightarrow> app" where
  "clear_transcript s =
     (logmsg DEBUG (ascii ''Clearing transcript'') s)
       \<lparr>transcript_text := text_delete_all (transcript_text s)\<rparr>"

definition log_append :: "level \<Rightarrow> pystr \<Rightarrow> app \<Rightarrow> app" where
  "log_append lvl msg s = s\<lparr>debug_text := debug_text s @ [(msg @ nl, lvl)]\<rparr>"


section \<open>The handlers of the main thread\<close>

definition browse_model :: "pystr \<Rightarrow> app \<Rightarrow> app" where
  "browse_model model_dir s =
     (let s1 = emit AskDirectory (logmsg DEBUG (ascii ''Browsing for model directory'') s)
      in if model_dir \<noteq> [] then
           logmsg DEBUG (ascii ''Model directory selected: '' @ model_dir)
             (s1\<lparr>model_path_var := model_dir\<rparr>)
         else s1)"

text \<open>
  \<open>check_model\<close>: \<open>exists\<close> is what \<open>os.path.exists\<close> answers and \<open>load\<close> is the
  exception of \<open>Model(model_path)\<close>, if it raises.
\<close>

definition check_model :: "bool \<Rightarrow> exn option \<Rightarrow> app \<Rightarrow> app" where
  "check_model exists load s =
     (let model_path = model_path_var s;
          s1 = emit (PathExists model_path exists)
                 (logmsg DEBUG (ascii ''Checking model at path: '' @ model_path) s)
      in if \<not> exists then
           messagebox ShowError (ascii ''Model Error'')
               (ascii ''Model directory not found: '' @ model_path)
             (logmsg ERROR (ascii ''Model path does not exist: '' @ model_path) s1)
         else
           (let s2 = emit (ModelNew model_path (load = None))
                       (logmsg DEBUG (ascii ''Loading Vosk model...'') s1)
            in case load of
                 None \<Rightarrow>
                   (messagebox ShowInfo (ascii ''Model Check'')
                        (ascii ''Vosk model loaded successfully!'')
                      (logmsg INFO (ascii ''Vosk model loaded successfully'')
                        (s2\<lparr>model := Some (Model model_path)\<rparr>)))
                     \<lparr>start_button := NORMAL\<rparr>
               | Some e \<Rightarrow>
                   messagebox ShowError (ascii ''Model Error'')
                       (ascii ''Failed to load Vosk model: '' @ e)
                     (logmsg ERROR (ascii ''Error loading Vosk model: '' @ e) s2)))"

text \<open>The \<open>except\<close> branch of \<open>start_listening\<close>.\<close>

definition start_failed :: "exn \<Rightarrow> app \<Rightarrow> app" where
  "start_failed e s =
     update_status (ascii ''Error'') (ascii ''red'')
       (messagebox ShowError (ascii ''Start Error'')
           (ascii ''Failed to start speech recognition: '' @ e)
         (logmsg ERROR (ascii ''Error starting speech recognition: '' @ e)
           (s\<lparr>is_listening := False\<rparr>)))"

text \<open>
  \<open>start_listening\<close>: \<open>pa\<close> is the outcome of \<open>pyaudio.PyAudio()\<close> (an exception or the
  new object), \<open>rec\<close> the exception of \<open>KaldiRecognizer(self.model, 16000)\<close> and \<open>th\<close>
  the exception of \<open>self.thread.start()\<close>, if they raise. A started thread is a new entry
  of \<open>workers\<close>, at the beginning of \<open>recognize_speech\<close>.
\<close>

definition start_listening :: "exn + nat \<Rightarrow> exn option \<Rightarrow> exn option \<Rightarrow> app \<Rightarrow> app" where
  "start_listening pa rec th s =
     (if is_listening s then
        logmsg DEBUG (ascii ''Already listening, ignoring start request'') s
      else
        (let s1 = update_status (ascii ''Listening...'') (ascii ''green'')
                    ((logmsg DEBUG (ascii ''Starting speech recognition'') s)
                       \<lparr>is_listening := True\<rparr>);
             s2 = emit PyAudioNew s1
         in case pa of
              Inl e \<Rightarrow> start_failed e s2
            | Inr a \<Rightarrow>
                (let s3 = emit (RecognizerNew (model s2) 16000) (s2\<lparr>audio := Some a\<rparr>)
                 in case rec of
                      Some e \<Rightarrow> start_failed e s3
                    | None \<Rightarrow>
                        (let n = length (workers s3);
                             s4 = emit (ThreadStart n)
                                    (s3\<lparr>recognizer := Some (model s3, 16000),
                                        thread := Some n\<rparr>)
                         in case th of
                              Some e \<Rightarrow> start_failed e s4
                            | None \<Rightarrow>
                                logmsg INFO (ascii ''Speech recognition started'')
                                  (s4\<lparr>workers := workers s4 @ [PcOpen],
                                      start_button := DISABLED,
                                      stop_button := NORMAL,
                                      check_model_button := DISABLED\<rparr>)))))"

text \<open>
  \<open>stop_listening\<close>: \<open>stop_r\<close>, \<open>close_r\<close> and \<open>term_r\<close> are the exceptions of
  \<open>stream.stop_stream()\<close>, \<open>stream.close()\<close> and \<open>audio.terminate()\<close>, if they raise.
  The first two are inside the \<open>try\<close>; the last is not, so its exception leaves the
  handler, and the result carries it beside the state reached.
\<close>

definition close_stream :: "exn option \<Rightarrow> exn option \<Rightarrow> app \<Rightarrow> app" where
  "close_stream stop_r close_r s =
     (let s1 = emit StreamStopStream s
      in case stop_r of
           Some e \<Rightarrow> logmsg ERROR (ascii ''Error closing audio stream: '' @ e) s1
         | None \<Rightarrow>
             (let s2 = emit StreamClose s1
              in case close_r of
                   Some e \<Rightarrow> logmsg ERROR (ascii ''Error closing audio stream: '' @ e) s2
                 | None \<Rightarrow> s2))"

definition stop_finish :: "app \<Rightarrow> app" where
  "stop_finish s =
     logmsg INFO (ascii ''Speech recognition stopped'')
       (s\<lparr>start_button := NORMAL, stop_button := DISABLED, check_model_button := NORMAL\<rparr>)"

definition stop_listening ::
  "exn option \<Rightarrow> exn option \<Rightarrow> exn option \<Rightarrow> app \<Rightarrow> app \<times> exn option" where
  "stop_listening stop_r close_r term_r s =
     (if \<not> is_listening s then
        (logmsg DEBUG (ascii ''Not listening, ignoring stop request'') s, None)
      else
        (let s1 = update_status (ascii ''Stopped'') (ascii ''gray'')
                    ((logmsg DEBUG (ascii ''Stopping speech recognition'') s)
                       \<lparr>is_listening := False\<rparr>);
             s2 = (if stream s1 \<noteq> None then close_stream stop_r close_r s1 else s1)
         in if audio s2 \<noteq> None then
              (let s3 = emit AudioTerminate s2
               in case term_r of
                    Some e \<Rightarrow> (s3, Some e)
                  | None \<Rightarrow> (stop_finish (s3\<lparr>audio := None\<rparr>), None))
            else (stop_finish s2, None)))"

text \<open>
  \<open>save_transcript\<close>: \<open>filename\<close> is what the save dialog returns (empty when the user
  cancels), \<open>open_r\<close> and \<open>write_r\<close> are the exceptions of \<open>open(filename, "w")\<close> and of
  \<open>f.write(transcript)\<close>, if they raise.
\<close>

definition save_failed :: "exn \<Rightarrow> app \<Rightarrow> app" where
  "save_failed e s =
     messagebox ShowError (ascii ''Save Error'') (ascii ''Failed to save transcript: '' @ e)
       (logmsg ERROR (ascii ''Error saving transcript: '' @ e) s)"

definition save_transcript :: "pystr \<Rightarrow> exn option \<Rightarrow> exn option \<Rightarrow> app \<Rightarrow> app" where
  "save_transcript filename open_r write_r s =
     (let transcript = strip (text_get (transcript_text s))
      in if transcript = [] then
           messagebox ShowInfo (ascii ''Save Transcript'') (ascii ''No transcript to save.'')
             (logmsg DEBUG (ascii ''No transcript to save'') s)
         else
           (let s1 = emit AskSaveAsFilename s
            in if filename \<noteq> [] then
                 (let s2 = emit (FileOpenWrite filename)
                             (logmsg DEBUG (ascii ''Saving transcript to '' @ filename) s1)
                  in case open_r of
                       Some e \<Rightarrow> save_failed e s2
                     | None \<Rightarrow>
                         (let s3 = emit (FileWrite filename transcript) s2
                          in case write_r of
                               Some e \<Rightarrow> save_failed e s3
                             | None \<Rightarrow>
                                 messagebox ShowInfo (ascii ''Save Transcript'')
                                     (ascii ''Transcript saved to '' @ filename)
                                   (logmsg INFO (ascii ''Transcript saved to '' @ filename) s3)))
               else s1))"


section \<open>The recognition thread\<close>

text \<open>
  What the outside world answers to one pass of the loop body: the read raises, or returns
  \<open>data\<close>; then \<open>AcceptWaveform\<close> raises, or says that an utterance is complete
  (\<open>Final\<close>) or not (\<open>Partial\<close>); then reading the result raises, or gives the value of
  the key \<open>"text"\<close> (of \<open>"partial"\<close>) in the decoded result, the empty string when the
  key is absent.
\<close>

datatype accept = AcceptRaises exn | Final "exn + pystr" | Partial "exn + pystr"

datatype outcome = ReadRaises exn | ReadData "nat list" accept

datatype world = World (stream_open: "exn + nat") (stream_start: "exn option") (loop_body: outcome)

text \<open>The text of the \<open>AttributeError\<close> of \<open>self.audio.open\<close> when \<open>self.audio\<close> is
  \<open>None\<close> (code point 39 is the apostrophe).\<close>

definition none_has_no_open :: exn where
  "none_has_no_open =
     [39] @ ascii ''NoneType'' @ [39] @ ascii '' object has no attribute '' @ [39]
       @ ascii ''open'' @ [39]"

text \<open>The outer \<open>except\<close> branch of \<open>recognize_speech\<close>.\<close>

definition thread_failed :: "exn \<Rightarrow> app \<Rightarrow> pc \<times> app" where
  "thread_failed e s =
     (PcDone,
      root_after (CbUpdateStatus (ascii ''Error'') (ascii ''red''))
        ((logmsg ERROR (ascii ''Error in speech recognition thread: '' @ e) s)
           \<lparr>is_listening := False\<rparr>))"

definition thread_exit :: "app \<Rightarrow> pc \<times> app" where
  "thread_exit s = (PcDone, logmsg DEBUG (ascii ''Recognition thread exiting'') s)"

text \<open>
  \<open>recognize_speech\<close> runs beside the main thread, so it is a step function: one step
  runs the thread from one point where it reads \<open>self.is_listening\<close> to the next.
  \<open>PcOpen\<close> is the code before the loop, \<open>PcTest\<close> the test of the \<open>while\<close>,
  \<open>PcBody\<close> the body of the inner \<open>try\<close>, \<open>PcExcept e\<close> its handler, and \<open>PcDone\<close>
  the end of the function.
\<close>

fun recognize_speech :: "world \<Rightarrow> pc \<Rightarrow> app \<Rightarrow> pc \<times> app" where
  "recognize_speech w PcOpen s =
     (let s1 = logmsg DEBUG (ascii ''Starting speech recognition thread'') s
      in if audio s1 = None then
           thread_failed none_has_no_open s1
         else
           (let s2 = emit (StreamOpen PaInt16 1 16000 True 8000) s1
            in case stream_open w of
                 Inl e \<Rightarrow> thread_failed e s2
               | Inr h \<Rightarrow>
                   (let s3 = emit StreamStartStream (s2\<lparr>stream := Some h\<rparr>)
                    in case stream_start w of
                         Some e \<Rightarrow> thread_failed e s3
                       | None \<Rightarrow>
                           (PcTest, logmsg DEBUG (ascii ''Microphone stream opened'') s3))))"
| "recognize_speech w PcTest s =
     (if is_listening s then (PcBody, s) else thread_exit s)"
| "recognize_speech w PcBody s =
     (let s1 = emit (StreamRead 4000 False) s
      in case loop_body w of
           ReadRaises e \<Rightarrow> (PcExcept e, s1)
         | ReadData data acc \<Rightarrow>
             if length data = 0 then
               (PcTest, logmsg DEBUG (ascii ''Empty audio data received'') s1)
             else
               (case acc of
                  AcceptRaises e \<Rightarrow> (PcExcept e, s1)
                | Final (Inl e) \<Rightarrow> (PcExcept e, s1)
                | Final (Inr transcript) \<Rightarrow>
                    (PcTest,
                     if transcript \<noteq> [] then
                       add_transcript transcript
                         (logmsg DEBUG (ascii ''Recognized: '' @ transcript) s1)
                     else s1)
                | Partial (Inl e) \<Rightarrow> (PcExcept e, s1)
                | Partial (Inr partial_text) \<Rightarrow>
                    (PcTest,
                     if partial_text \<noteq> [] then update_partial partial_text s1 else s1)))"
| "recognize_speech w (PcExcept e) s =
     (let s1 = logmsg ERROR (ascii ''Error in recognition loop: '' @ e) s
      in if \<not> is_listening s1 then thread_exit s1 else (PcTest, s1))"
| "recognize_speech w PcDone s = (PcDone, s)"

section \<open>The running application\<close>

text \<open>
  \<open>init\<close> is the state in \<open>create_widgets\<close> once the widgets exist: the attributes as
  \<open>__init__\<close> sets them, both listening buttons disabled, and the three records logged so
  far, which reach standard output only since the handler of the debug widget is not yet
  installed. \<open>main\<close> is the state when the main loop is entered (\<open>__init__\<close> leaves the
  check button enabled, as it was created). Window geometry and layout are left out.
\<close>

definition init :: app where
  "init =
     \<lparr>is_listening = False, thread = None, model = None, recognizer = None, audio = None,
      stream = None, model_path_var = ascii ''./model'', start_button = DISABLED,
      stop_button = DISABLED, check_model_button = NORMAL,
      status_label = ascii ''Status: Ready'', status_indicator = ascii ''gray'',
      transcript_text = [], debug_text = [], after_queue = [], workers = [],
      trace = [Log INFO (ascii ''Starting Vosk Speech-to-Text application''),
               Log DEBUG (ascii ''Initializing VoskSpeechToText application''),
               Log DEBUG (ascii ''Creating GUI widgets'')]\<rparr>"

definition main :: app where
  "main =
     logmsg INFO (ascii ''Entering main loop'')
       (logmsg DEBUG (ascii ''Application initialized successfully'')
         (logmsg DEBUG (ascii ''GUI widgets created successfully'') init))"

text \<open>Running a deferred callback.\<close>

fun run_callback :: "callback \<Rightarrow> app \<Rightarrow> app" where
  "run_callback (CbAddTranscript text) s = add_transcript_impl text s"
| "run_callback (CbUpdatePartial text) s = update_partial_impl text s"
| "run_callback (CbUpdateStatus status_text color) s = update_status status_text color s"
| "run_callback (CbUpdateStatusImpl status_text color) s = update_status_impl status_text color s"
| "run_callback (CbLogAppend lvl msg) s = log_append lvl msg s"

definition on_closing :: "exn option \<Rightarrow> exn option \<Rightarrow> exn option \<Rightarrow> app \<Rightarrow> app" where
  "on_closing stop_r close_r term_r s =
     (if is_listening s then
        (case stop_listening stop_r close_r term_r s of
           (s1, Some e) \<Rightarrow> s1
         | (s1, None) \<Rightarrow> logmsg INFO (ascii ''Application closing'') s1)
      else logmsg INFO (ascii ''Application closing'') s)"

text \<open>
  What can happen next: the user presses a button (a disabled button does not call its
  command), closes the window, the main loop runs the oldest deferred callback, or the
  recognition thread number \<open>i\<close> makes a step. Each handler of the main thread runs as
  one step. An exception that leaves a handler is reported by the toolkit and the main
  loop goes on from the state reached. Closing the window ends the application; here the
  run may go on after it, which only adds states. What the user types into the entry or
  the text areas is not an operation of the program and is left out.
\<close>

datatype ui_event =
    ClickBrowse pystr
  | ClickCheckModel bool "exn option"
  | ClickStart "exn + nat" "exn option" "exn option"
  | ClickStop "exn option" "exn option" "exn option"
  | ClickClear
  | ClickSave pystr "exn option" "exn option"
  | CloseWindow "exn option" "exn option" "exn option"
  | RunAfter
  | Tick nat world

fun step :: "ui_event \<Rightarrow> app \<Rightarrow> app" where
  "step (ClickBrowse d) s = browse_model d s"
| "step (ClickCheckModel exists load) s =
     (if check_model_button s = NORMAL then check_model exists load s else s)"
| "step (ClickStart pa rec th) s =
     (if start_button s = NORMAL then start_listening pa rec th s else s)"
| "step (ClickStop stop_r close_r term_r) s =
     (if stop_button s = NORMAL then fst (stop_listening stop_r close_r term_r s) else s)"
| "step ClickClear s = clear_transcript s"
| "step (ClickSave filename open_r write_r) s = save_transcript filename open_r write_r s"
| "step (CloseWindow stop_r close_r term_r) s = on_closing stop_r close_r term_r s"
| "step RunAfter s =
     (case after_queue s of
        [] \<Rightarrow> s
      | cb # q \<Rightarrow> run_callback cb (s\<lparr>after_queue := q\<rparr>))"
| "step (Tick i w) s =
     (if i < length (workers s) then
        (case recognize_speech w (workers s ! i) s of
           (p, s1) \<Rightarrow> s1\<lparr>workers := (workers s1)[i := p]\<rparr>)
      else s)"

primrec run :: "app \<Rightarrow> ui_event list \<Rightarrow> app" where
  "run s [] = s"
| "run s (e # es) = run (step e s) es"

section \<open>Measuring a run\<close>

text \<open>The events a computation from \<open>s\<close> to \<open>s'\<close> added to the record.\<close>

definition new_events :: "app \<Rightarrow> app \<Rightarrow> event list" where
  "new_events s s' = drop (length (trace s)) (trace s')"

text \<open>The state of the widgets (buttons, labels, text areas, the path entry).\<close>

definition widgets ::
  "app \<Rightarrow> btn_state \<times> btn_state \<times> btn_state \<times> pystr \<times> pystr \<times> pystr \<times> (pystr \<times> level) list \<times> pystr" where
  "widgets s =
     (start_button s, stop_button s, check_model_button s, status_label s, status_indicator s,
      transcript_text s, debug_text s, model_path_var s)"

text \<open>The attributes of the application object, with its threads.\<close>

definition attrs ::
  "app \<Rightarrow> bool \<times> nat option \<times> model option \<times> (model option \<times> nat) option \<times> nat option \<times> nat option \<times> pc list" where
  "attrs s = (is_listening s, thread s, model s, recognizer s, audio s, stream s, workers s)"

text \<open>The arguments the source gives to the audio device and to the recognizer.\<close>

fun audio_params :: "event \<Rightarrow> bool" where
  "audio_params (StreamOpen f c r i n) = (f = PaInt16 \<and> c = 1 \<and> r = 16000 \<and> i \<and> n = 8000)"
| "audio_params (StreamRead n b) = (n = 4000 \<and> \<not> b)"
| "audio_params (RecognizerNew m r) = (r = 16000)"
| "audio_params _ = True"

text \<open>No call of \<open>start_listening\<close> among the events.\<close>

fun is_start :: "ui_event \<Rightarrow> bool" where
  "is_start (ClickStart pa rec th) = True"
| "is_start _ = False"

definition no_start :: "ui_event list \<Rightarrow> bool" where
  "no_start evs = list_all (\<lambda>e. \<not> is_start e) evs"

text \<open>The steps that thread \<open>i\<close> makes among the events.\<close>

fun is_tick :: "nat \<Rightarrow> ui_event \<Rightarrow> bool" where
  "is_tick i (Tick j w) = (i = j)"
| "is_tick i _ = False"

definition ticks :: "nat \<Rightarrow> ui_event list \<Rightarrow> nat" where
  "ticks i evs = length (filter (is_tick i) evs)"

text \<open>How many times thread \<open>i\<close> runs the loop body (and reads a chunk) in a run.\<close>

fun body_runs :: "nat \<Rightarrow> app \<Rightarrow> ui_event list \<Rightarrow> nat" where
  "body_runs i s [] = 0"
| "body_runs i s (e # es) =
     (if is_tick i e \<and> i < length (workers s) \<and> workers s ! i = PcBody then 1 else 0)
       + body_runs i (step e s) es"

text \<open>The steps a thread still needs to leave the function once the flag is off.\<close>

fun steps_left :: "pc \<Rightarrow> nat" where
  "steps_left PcDone = 0"
| "steps_left PcTest = 1"
| "steps_left (PcExcept e) = 1"
| "steps_left PcBody = 2"
| "steps_left PcOpen = 2"

text \<open>An error that is logged and shown in a modal error box.\<close>

definition reported :: "pystr \<Rightarrow> pystr \<Rightarrow> pystr \<Rightarrow> exn \<Rightarrow> event list" where
  "reported log_text title box_text e =
     [Log ERROR (log_text @ e), MessageBox ShowError title (box_text @ e)]"

fun is_box :: "event \<Rightarrow> bool" where
  "is_box (MessageBox b title msg) = True"
| "is_box _ = False"

text \<open>Every recognizer was made for 16000 Hz.\<close>

definition rec_ok :: "app \<Rightarrow> bool" where
  "rec_ok s = (\<forall>m r. recognizer s = Some (m, r) \<longrightarrow> r = 16000)"

text \<open>The start button is enabled, or the application listens, only with a model, and
  every model held was constructed by a call that the record shows.\<close>

definition model_inv :: "app \<Rightarrow> bool" where
  "model_inv s =
     ((start_button s = NORMAL \<or> is_listening s \<longrightarrow> model s \<noteq> None) \<and>
      (\<forall>p. model s = Some (Model p) \<longrightarrow> ModelNew p True \<in> set (trace s)))"

subsection \<open>Sample sessions\<close>

text \<open>A world in which the microphone opens and every read returns one byte that the
  recognizer takes as part of an unfinished utterance with no text yet.\<close>

definition quiet :: world where
  "quiet = World (Inr 7) None (ReadData [0] (Partial (Inr [])))"

text \<open>A world in which every read raises.\<close>

definition broken :: world where
  "broken = World (Inr 7) None (ReadRaises (ascii ''boom''))"

text \<open>A world in which the recognizer completes the utterance "hello" at every read.\<close>

definition heard :: world where
  "heard = World (Inr 7) None (ReadData [0] (Final (Inr (ascii ''hello''))))"

text \<open>The user loads the model and starts listening; the thread opens the microphone and
  passes the test of the loop, so it is about to read.\<close>

definition listening :: app where
  "listening = run main [ClickCheckModel True None, ClickStart (Inr 1) None None,
     Tick 0 quiet, Tick 0 quiet]"

text \<open>Then the user presses the stop button.\<close>

definition stopped :: app where
  "stopped = step (ClickStop None None None) listening"

section \<open>The build script\<close>

text \<open>
  \<open>build_executable\<close> of \<open>build_exe.py\<close>. The functions of the standard library it
  calls depend on the platform, so they are parameters: \<open>os.path.exists\<close>,
  \<open>os.path.basename\<close>, \<open>os.path.splitext\<close>, \<open>os.path.join\<close>, \<open>os.pathsep\<close>,
  \<open>os.getcwd()\<close> and whether \<open>sys.platform\<close> is \<open>"win32"\<close>. The value of
  \<open>os.path.dirname(model_path)\<close> is computed and never used, so it is left out.
\<close>

record os =
  path_exists :: "pystr \<Rightarrow> bool"
  basename :: "pystr \<Rightarrow> pystr"
  splitext :: "pystr \<Rightarrow> pystr \<times> pystr"
  path_join :: "pystr \<Rightarrow> pystr \<Rightarrow> pystr"
  pathsep :: pystr
  getcwd :: pystr
  win32 :: bool

text \<open>An optional string argument counts as true when it is given and not empty.\<close>

fun truthy :: "pystr option \<Rightarrow> bool" where
  "truthy None = False"
| "truthy (Some x) = (x \<noteq> [])"

fun str_of :: "pystr option \<Rightarrow> pystr" where
  "str_of None = ascii ''None''"
| "str_of (Some x) = x"

text \<open>\<open>' '.join(args)\<close>.\<close>

fun join_spaces :: "pystr list \<Rightarrow> pystr" where
  "join_spaces [] = []"
| "join_spaces [x] = x"
| "join_spaces (x # y # ys) = x @ ascii '' '' @ join_spaces (y # ys)"

text \<open>How \<open>subprocess.check_call\<close> ends: it returns, it raises \<open>CalledProcessError\<close>
  (which the function catches), or it raises something else (which leaves the function).\<close>

datatype call_result = Returned | CalledProcessError exn | Raised exn

record build =
  argv :: "pystr list"
  logged :: "(level \<times> pystr) list"
  returned :: "exn + pystr option"

definition pyinstaller_args ::
  "os \<Rightarrow> pystr \<Rightarrow> pystr \<Rightarrow> bool \<Rightarrow> bool \<Rightarrow> pystr option \<Rightarrow> bool \<Rightarrow> pystr option \<Rightarrow> pystr list" where
  "pyinstaller_args os script_path output_name one_file console icon include_model model_path =
     (let a0 = [ascii ''pyinstaller'', ascii ''--name='' @ output_name, ascii ''--clean''];
          a1 = (if one_file then a0 @ [ascii ''--onefile''] else a0);
          a2 = (if \<not> console then a1 @ [ascii ''--windowed''] else a1);
          a3 = (if truthy icon \<and> path_exists os (str_of icon)
                then a2 @ [ascii ''--icon='' @ str_of icon] else a2);
          a4 = (if include_model \<and> truthy model_path \<and> path_exists os (str_of model_path)
                then a3 @ [ascii ''--add-data='' @ str_of model_path @ pathsep os
                             @ ascii ''model/'' @ basename os (str_of model_path)]
                else a3)
      in a4 @ [script_path])"

definition build_executable ::
  "os \<Rightarrow> call_result \<Rightarrow> pystr \<Rightarrow> pystr option \<Rightarrow> bool \<Rightarrow> bool \<Rightarrow> pystr option \<Rightarrow> bool
     \<Rightarrow> pystr option \<Rightarrow> build" where
  "build_executable os call script_path output_name one_file console icon include_model
       model_path =
     (let name = (if \<not> truthy output_name then fst (splitext os (basename os script_path))
                  else str_of output_name);
          args = pyinstaller_args os script_path name one_file console icon include_model
                   model_path;
          log0 = [(INFO, ascii ''Building executable with PyInstaller''),
                  (INFO, ascii ''Running PyInstaller with args: '' @ join_spaces args)]
      in case call of
           Returned \<Rightarrow>
             (let dist = path_join os (path_join os (getcwd os) (ascii ''dist'')) name;
                  dist_path = (if one_file
                               then dist @ (if win32 os then ascii ''.exe'' else [])
                               else dist)
              in \<lparr>argv = args,
                  logged = log0 @ [(INFO, ascii ''Executable built successfully: '' @ dist_path)],
                  returned = Inr (Some dist_path)\<rparr>)
         | CalledProcessError e \<Rightarrow>
             \<lparr>argv = args,
              logged = log0 @ [(ERROR, ascii ''Error building executable: '' @ e)],
              returned = Inr None\<rparr>
         | Raised e \<Rightarrow> \<lparr>argv = args, logged = log0, returned = Inl e\<rparr>)"

text \<open>The same functions on a POSIX system, as \<open>posixpath\<close> defines them (code point 47
  is the slash, 46 the dot, 58 the colon).\<close>

definition posix_basename :: "pystr \<Rightarrow> pystr" where
  "posix_basename p = rev (takeWhile (\<lambda>c. c \<noteq> 47) (rev p))"

definition posix_splitext :: "pystr \<Rightarrow> pystr \<times> pystr" where
  "posix_splitext p =
     (let name = posix_basename p;
          ext = rev (takeWhile (\<lambda>c. c \<noteq> 46) (rev name));
          stem = take (length name - length ext - 1) name
      in if 46 \<in> set name \<and> (\<exists>c\<in>set stem. c \<noteq> 46)
         then (take (length p - length ext - 1) p, 46 # ext)
         else (p, []))"

definition posix_join :: "pystr \<Rightarrow> pystr \<Rightarrow> pystr" where
  "posix_join a b =
     (if b \<noteq> [] \<and> hd b = 47 then b
      else if a = [] \<or> last a = 47 then a @ b
      else a @ [47] @ b)"

definition posix :: "(pystr \<Rightarrow> bool) \<Rightarrow> pystr \<Rightarrow> os" where
  "posix exists cwd =
     \<lparr>path_exists = exists, basename = posix_basename, splitext = posix_splitext,
      path_join = posix_join, pathsep = [58], getcwd = cwd, win32 = False\<rparr>"

section \<open>Basic facts\<close>

subsection \<open>Strings\<close>

lemma ascii_Nil [simp]: "ascii [] = []"
  by (simp add: ascii_def)

lemma ascii_eq_Nil [simp]: "(ascii s = []) = (s = [])"
  by (simp add: ascii_def)

lemma strip_Nil [simp]: "strip [] = []"
  by (simp add: strip_def)

lemma strip_empty_iff: "(strip xs = []) = (\<forall>c\<in>set xs. py_isspace c)"
proof
  assume "strip xs = []"
  then have all: "\<forall>x\<in>set (dropWhile py_isspace xs). py_isspace x"
    by (simp add: strip_def dropWhile_eq_Nil_conv)
  have "dropWhile py_isspace xs = []"
  proof (cases "dropWhile py_isspace xs")
    case Nil
    then show ?thesis .
  next
    case (Cons y ys)
    then have "\<not> py_isspace y"
      by (metis hd_dropWhile list.sel(1) list.simps(3))
    with Cons all show ?thesis by simp
  qed
  then show "\<forall>c\<in>set xs. py_isspace c"
    by (simp add: dropWhile_eq_Nil_conv)
next
  assume "\<forall>c\<in>set xs. py_isspace c"
  then have d: "dropWhile py_isspace xs = []"
    by simp
  show "strip xs = []"
    unfolding strip_def d by simp
qed

lemma strip_snoc_space:
  assumes "py_isspace c"
  shows "strip (xs @ [c]) = strip xs"
proof (cases "\<forall>x\<in>set xs. py_isspace x")
  case True
  with assms have "strip (xs @ [c]) = []" and "strip xs = []"
    by (simp_all add: strip_empty_iff)
  then show ?thesis by simp
next
  case False
  then obtain x where "x \<in> set xs" and "\<not> py_isspace x"
    by blast
  then have "dropWhile py_isspace (xs @ [c]) = dropWhile py_isspace xs @ [c]"
    by (rule dropWhile_append1)
  with assms show ?thesis
    by (simp add: strip_def)
qed

lemma strip_text_get [simp]: "strip (text_get buf) = strip buf"
  by (simp add: text_get_def nl_def strip_snoc_space py_isspace_def)

subsection \<open>What the basic operations change\<close>

lemma emit_fields [simp]:
  "is_listening (emit e s) = is_listening s"
  "thread (emit e s) = thread s"
  "model (emit e s) = model s"
  "recognizer (emit e s) = recognizer s"
  "audio (emit e s) = audio s"
  "stream (emit e s) = stream s"
  "model_path_var (emit e s) = model_path_var s"
  "start_button (emit e s) = start_button s"
  "stop_button (emit e s) = stop_button s"
  "check_model_button (emit e s) = check_model_button s"
  "status_label (emit e s) = status_label s"
  "status_indicator (emit e s) = status_indicator s"
  "transcript_text (emit e s) = transcript_text s"
  "debug_text (emit e s) = debug_text s"
  "after_queue (emit e s) = after_queue s"
  "workers (emit e s) = workers s"
  "trace (emit e s) = trace s @ [e]"
  by (simp_all add: emit_def)

lemma root_after_fields [simp]:
  "is_listening (root_after cb s) = is_listening s"
  "thread (root_after cb s) = thread s"
  "model (root_after cb s) = model s"
  "recognizer (root_after cb s) = recognizer s"
  "audio (root_after cb s) = audio s"
  "stream (root_after cb s) = stream s"
  "model_path_var (root_after cb s) = model_path_var s"
  "start_button (root_after cb s) = start_button s"
  "stop_button (root_after cb s) = stop_button s"
  "check_model_button (root_after cb s) = check_model_button s"
  "status_label (root_after cb s) = status_label s"
  "status_indicator (root_after cb s) = status_indicator s"
  "transcript_text (root_after cb s) = transcript_text s"
  "debug_text (root_after cb s) = debug_text s"
  "after_queue (root_after cb s) = after_queue s @ [cb]"
  "workers (root_after cb s) = workers s"
  "trace (root_after cb s) = trace s"
  by (simp_all add: root_after_def)

lemma logmsg_fields [simp]:
  "is_listening (logmsg lvl msg s) = is_listening s"
  "thread (logmsg lvl msg s) = thread s"
  "model (logmsg lvl msg s) = model s"
  "recognizer (logmsg lvl msg s) = recognizer s"
  "audio (logmsg lvl msg s) = audio s"
  "stream (logmsg lvl msg s) = stream s"
  "model_path_var (logmsg lvl msg s) = model_path_var s"
  "start_button (logmsg lvl msg s) = start_button s"
  "stop_button (logmsg lvl msg s) = stop_button s"
  "check_model_button (logmsg lvl msg s) = check_model_button s"
  "status_label (logmsg lvl msg s) = status_label s"
  "status_indicator (logmsg lvl msg s) = status_indicator s"
  "transcript_text (logmsg lvl msg s) = transcript_text s"
  "debug_text (logmsg lvl msg s) = debug_text s"
  "after_queue (logmsg lvl msg s) = after_queue s @ [CbLogAppend lvl msg]"
  "workers (logmsg lvl msg s) = workers s"
  "trace (logmsg lvl msg s) = trace s @ [Log lvl msg]"
  by (simp_all add: logmsg_def)

lemma messagebox_fields [simp]:
  "is_listening (messagebox b title msg s) = is_listening s"
  "thread (messagebox b title msg s) = thread s"
  "model (messagebox b title msg s) = model s"
  "recognizer (messagebox b title msg s) = recognizer s"
  "audio (messagebox b title msg s) = audio s"
  "stream (messagebox b title msg s) = stream s"
  "model_path_var (messagebox b title msg s) = model_path_var s"
  "start_button (messagebox b title msg s) = start_button s"
  "stop_button (messagebox b title msg s) = stop_button s"
  "check_model_button (messagebox b title msg s) = check_model_button s"
  "status_label (messagebox b title msg s) = status_label s"
  "status_indicator (messagebox b title msg s) = status_indicator s"
  "transcript_text (messagebox b title msg s) = transcript_text s"
  "debug_text (messagebox b title msg s) = debug_text s"
  "after_queue (messagebox b title msg s) = after_queue s"
  "workers (messagebox b title msg s) = workers s"
  "trace (messagebox b title msg s) = trace s @ [MessageBox b title msg]"
  by (simp_all add: messagebox_def)

lemma update_status_fields [simp]:
  "is_listening (update_status st col s) = is_listening s"
  "thread (update_status st col s) = thread s"
  "model (update_status st col s) = model s"
  "recognizer (update_status st col s) = recognizer s"
  "audio (update_status st col s) = audio s"
  "stream (update_status st col s) = stream s"
  "model_path_var (update_status st col s) = model_path_var s"
  "start_button (update_status st col s) = start_button s"
  "stop_button (update_status st col s) = stop_button s"
  "check_model_button (update_status st col s) = check_model_button s"
  "status_label (update_status st col s) = status_label s"
  "status_indicator (update_status st col s) = status_indicator s"
  "transcript_text (update_status st col s) = transcript_text s"
  "debug_text (update_status st col s) = debug_text s"
  "after_queue (update_status st col s) = after_queue s @ [CbUpdateStatusImpl st col]"
  "workers (update_status st col s) = workers s"
  "trace (update_status st col s) = trace s"
  by (simp_all add: update_status_def)

lemma update_partial_fields [simp]:
  "is_listening (update_partial text s) = is_listening s"
  "thread (update_partial text s) = thread s"
  "model (update_partial text s) = model s"
  "recognizer (update_partial text s) = recognizer s"
  "audio (update_partial text s) = audio s"
  "stream (update_partial text s) = stream s"
  "model_path_var (update_partial text s) = model_path_var s"
  "start_button (update_partial text s) = start_button s"
  "stop_button (update_partial text s) = stop_button s"
  "check_model_button (update_partial text s) = check_model_button s"
  "status_label (update_partial text s) = status_label s"
  "status_indicator (update_partial text s) = status_indicator s"
  "transcript_text (update_partial text s) = transcript_text s"
  "debug_text (update_partial text s) = debug_text s"
  "after_queue (update_partial text s) = after_queue s @ [CbUpdatePartial text]"
  "workers (update_partial text s) = workers s"
  "trace (update_partial text s) = trace s"
  by (simp_all add: update_partial_def)

lemma add_transcript_fields [simp]:
  "is_listening (add_transcript text s) = is_listening s"
  "thread (add_transcript text s) = thread s"
  "model (add_transcript text s) = model s"
  "recognizer (add_transcript text s) = recognizer s"
  "audio (add_transcript text s) = audio s"
  "stream (add_transcript text s) = stream s"
  "model_path_var (add_transcript text s) = model_path_var s"
  "start_button (add_transcript text s) = start_button s"
  "stop_button (add_transcript text s) = stop_button s"
  "check_model_button (add_transcript text s) = check_model_button s"
  "status_label (add_transcript text s) = status_label s"
  "status_indicator (add_transcript text s) = status_indicator s"
  "transcript_text (add_transcript text s) = transcript_text s"
  "debug_text (add_transcript text s) = debug_text s"
  "after_queue (add_transcript text s) = after_queue s @ [CbAddTranscript text]"
  "workers (add_transcript text s) = workers s"
  "trace (add_transcript text s) = trace s"
  by (simp_all add: add_transcript_def)


subsection \<open>Unfolding the handlers\<close>

lemmas handler_defs = browse_model_def check_model_def start_failed_def start_listening_def
  close_stream_def stop_finish_def stop_listening_def save_failed_def save_transcript_def
  thread_failed_def thread_exit_def on_closing_def clear_transcript_def

lemmas callback_defs = add_transcript_impl_def update_partial_impl_def update_status_impl_def
  log_append_def

lemmas handler_splits = sum.splits option.splits outcome.splits accept.splits prod.splits
  list.splits

subsection \<open>The transcript buffer\<close>

lemma recognize_speech_transcript:
  "transcript_text (snd (recognize_speech w p s)) = transcript_text s"
  by (cases p) (simp_all add: handler_defs Let_def split: handler_splits)

lemma add_transcript_impl_prefix:
  "prefix (transcript_text s) (transcript_text (add_transcript_impl text s))"
  by (simp add: add_transcript_impl_def text_insert_end_def Let_def)

lemma run_callback_transcript:
  "prefix (transcript_text s) (transcript_text (run_callback cb s))"
  by (cases cb)
    (simp_all add: add_transcript_impl_prefix update_partial_impl_def update_status_impl_def
      log_append_def)

lemma step_transcript:
  "prefix (transcript_text s) (transcript_text (step e s)) \<or> e = ClickClear"
proof (cases e)
  case RunAfter
  then show ?thesis
    using run_callback_transcript [of "s\<lparr>after_queue := tl (after_queue s)\<rparr>" "hd (after_queue s)"]
    by (auto split: list.splits)
next
  case (Tick i w)
  then show ?thesis
    by (simp add: split_beta recognize_speech_transcript)
qed (simp_all add: handler_defs Let_def split: handler_splits)

lemma run_transcript:
  "ClickClear \<notin> set evs \<Longrightarrow> prefix (transcript_text s) (transcript_text (run s evs))"
proof (induction evs arbitrary: s)
  case Nil
  show ?case by simp
next
  case (Cons e evs)
  from Cons.prems have "prefix (transcript_text s) (transcript_text (step e s))"
    using step_transcript [of s e] by auto
  moreover from Cons have "prefix (transcript_text (step e s)) (transcript_text (run s (e # evs)))"
    by simp
  ultimately show ?case
    by (rule prefix_order.trans)
qed

subsection \<open>The arguments of the audio calls\<close>

lemma recognize_speech_params:
  "list_all audio_params (trace s) \<Longrightarrow>
   list_all audio_params (trace (snd (recognize_speech w p s)))"
  by (cases p) (simp_all add: handler_defs Let_def split: handler_splits)

lemma run_callback_trace: "trace (run_callback cb s) = trace s"
  by (cases cb) (simp_all add: callback_defs Let_def)

lemma step_params:
  "list_all audio_params (trace s) \<Longrightarrow> list_all audio_params (trace (step e s))"
proof (cases e)
  case RunAfter
  then show "list_all audio_params (trace s) \<Longrightarrow> ?thesis"
    by (simp add: run_callback_trace split: list.splits)
next
  case (Tick i w)
  then show "list_all audio_params (trace s) \<Longrightarrow> ?thesis"
    by (simp add: split_beta recognize_speech_params)
qed (simp_all add: handler_defs Let_def split: handler_splits)

lemma run_params:
  "list_all audio_params (trace s) \<Longrightarrow> list_all audio_params (trace (run s evs))"
  by (induction evs arbitrary: s) (simp_all add: step_params)

lemma main_params: "list_all audio_params (trace main)"
  by (simp add: main_def init_def)

lemma main_run_params: "e \<in> set (trace (run main evs)) \<Longrightarrow> audio_params e"
  using run_params [OF main_params, of evs] by (simp add: list_all_iff)

lemma recognize_speech_recognizer:
  "recognizer (snd (recognize_speech w p s)) = recognizer s"
  by (cases p) (simp_all add: handler_defs Let_def split: handler_splits)

lemma run_callback_recognizer: "recognizer (run_callback cb s) = recognizer s"
  by (cases cb) (simp_all add: callback_defs Let_def)

lemma tick_recognizer: "recognizer (step (Tick i w) s) = recognizer s"
  by (simp add: split_beta recognize_speech_recognizer)

lemma step_rec_ok: "rec_ok s \<Longrightarrow> rec_ok (step e s)"
proof (cases e)
  case RunAfter
  then show "rec_ok s \<Longrightarrow> ?thesis"
    by (simp add: rec_ok_def run_callback_recognizer split: list.splits)
next
  case (Tick i w)
  then show "rec_ok s \<Longrightarrow> ?thesis"
    by (simp only: rec_ok_def tick_recognizer)
qed (simp_all add: rec_ok_def handler_defs Let_def split: handler_splits)

lemma run_rec_ok: "rec_ok s \<Longrightarrow> rec_ok (run s evs)"
  by (induction evs arbitrary: s) (simp_all add: step_rec_ok)

lemma main_rec_ok: "rec_ok main"
  by (simp add: rec_ok_def main_def init_def)

subsection \<open>The recognition thread and the widgets\<close>

lemma recognize_speech_widgets: "widgets (snd (recognize_speech w p s)) = widgets s"
  by (cases p) (simp_all add: widgets_def handler_defs Let_def split: handler_splits)

lemma recognize_speech_after:
  "prefix (after_queue s) (after_queue (snd (recognize_speech w p s)))"
  by (cases p) (simp_all add: handler_defs Let_def split: handler_splits)

lemma tick_widgets: "widgets (step (Tick i w) s) = widgets s"
  using recognize_speech_widgets [of w "workers s ! i" s]
  by (simp add: widgets_def split_beta)

subsection \<open>The start button and the model\<close>

lemma recognize_speech_model_inv:
  "model_inv s \<Longrightarrow> model_inv (snd (recognize_speech w p s))"
  by (cases p) (auto simp add: model_inv_def handler_defs Let_def split: handler_splits)

lemma run_callback_model_inv: "model_inv s \<Longrightarrow> model_inv (run_callback cb s)"
  by (cases cb) (auto simp add: model_inv_def update_status_def callback_defs Let_def)

lemma step_model_inv: "model_inv s \<Longrightarrow> model_inv (step e s)"
proof (cases e)
  case RunAfter
  assume "model_inv s"
  then have "model_inv (s\<lparr>after_queue := tl (after_queue s)\<rparr>)"
    by (simp add: model_inv_def)
  with RunAfter \<open>model_inv s\<close> show ?thesis
    by (auto simp: run_callback_model_inv split: list.splits)
next
  case (Tick i w)
  assume "model_inv s"
  then show ?thesis
    using Tick recognize_speech_model_inv [of s w "workers s ! i"]
    by (auto simp: model_inv_def split: prod.splits)
qed (auto simp add: model_inv_def handler_defs Let_def split: handler_splits)

lemma run_model_inv: "model_inv s \<Longrightarrow> model_inv (run s evs)"
  by (induction evs arbitrary: s) (simp_all add: step_model_inv)

lemma main_model_inv: "model_inv main"
  by (simp add: model_inv_def main_def init_def)


subsection \<open>The flag and the loop\<close>

lemma recognize_speech_flag_off:
  "\<not> is_listening s \<Longrightarrow> \<not> is_listening (snd (recognize_speech w p s))"
  by (cases p) (simp_all add: handler_defs Let_def split: handler_splits)

lemma run_callback_flag: "is_listening (run_callback cb s) = is_listening s"
  by (cases cb) (simp_all add: callback_defs Let_def)

lemma recognize_speech_workers: "workers (snd (recognize_speech w p s)) = workers s"
  by (cases p) (simp_all add: handler_defs Let_def split: handler_splits)

lemma run_callback_workers: "workers (run_callback cb s) = workers s"
  by (cases cb) (simp_all add: callback_defs Let_def)

lemma step_flag_off:
  "\<not> is_listening s \<Longrightarrow> \<not> is_start e \<Longrightarrow> \<not> is_listening (step e s)"
proof (cases e)
  case RunAfter
  then show "\<not> is_listening s \<Longrightarrow> ?thesis"
    by (simp add: run_callback_flag split: list.splits)
next
  case (Tick i w)
  then show "\<not> is_listening s \<Longrightarrow> ?thesis"
    by (simp add: split_beta recognize_speech_flag_off)
qed (simp_all add: handler_defs Let_def split: handler_splits)

lemma recognize_speech_steps_left:
  "\<not> is_listening s \<Longrightarrow> steps_left (fst (recognize_speech w p s)) \<le> steps_left p - 1"
  by (cases p) (simp_all add: handler_defs Let_def split: handler_splits)

lemma step_workers_other:
  "\<not> is_start e \<Longrightarrow> \<not> is_tick i e \<Longrightarrow> workers (step e s) ! i = workers s ! i \<and> length (workers (step e s)) = length (workers s)"
proof (cases e)
  case RunAfter
  then show ?thesis
    by (simp add: run_callback_workers split: list.splits)
next
  case (Tick j w)
  assume "\<not> is_tick i e"
  with Tick show ?thesis
    by (simp add: split_beta recognize_speech_workers)
qed (simp_all add: handler_defs Let_def split: handler_splits)

lemma step_workers_length:
  "\<not> is_start e \<Longrightarrow> length (workers (step e s)) = length (workers s)"
proof (cases e)
  case RunAfter
  then show ?thesis
    by (simp add: run_callback_workers split: list.splits)
next
  case (Tick j w)
  then show ?thesis
    by (simp add: split_beta recognize_speech_workers)
qed (simp_all add: handler_defs Let_def split: handler_splits)

lemma step_tick_pc:
  "i < length (workers s) \<Longrightarrow> workers (step (Tick i w) s) ! i = fst (recognize_speech w (workers s ! i) s)"
  by (simp add: split_beta recognize_speech_workers)

lemma step_steps_left:
  assumes "\<not> is_listening s" "\<not> is_start e" "i < length (workers s)"
  shows "steps_left (workers (step e s) ! i) \<le> steps_left (workers s ! i) - (if is_tick i e then 1 else 0)"
proof (cases "is_tick i e")
  case True
  then obtain w where "e = Tick i w" by (cases e) auto
  with assms show ?thesis
    using recognize_speech_steps_left [of s w "workers s ! i"]
    by (simp add: step_tick_pc del: step.simps)
next
  case False
  with assms show ?thesis by (simp add: step_workers_other)
qed

lemma run_steps_left:
  "\<not> is_listening s \<Longrightarrow> no_start evs \<Longrightarrow> i < length (workers s) \<Longrightarrow>
   steps_left (workers (run s evs) ! i) \<le> steps_left (workers s ! i) - ticks i evs"
proof (induction evs arbitrary: s)
  case Nil
  show ?case by (simp add: ticks_def)
next
  case (Cons e evs)
  from Cons.prems have e: "\<not> is_start e" and evs: "no_start evs"
    by (simp_all add: no_start_def)
  have 1: "steps_left (workers (step e s) ! i) \<le> steps_left (workers s ! i) - (if is_tick i e then 1 else 0)"
    using Cons.prems e by (intro step_steps_left)
  have 2: "steps_left (workers (run (step e s) evs) ! i) \<le> steps_left (workers (step e s) ! i) - ticks i evs"
    using Cons.prems e evs by (intro Cons.IH) (simp_all add: step_flag_off step_workers_length)
  from 1 2 show ?case
    by (cases "is_tick i e") (simp_all add: ticks_def)
qed

lemma steps_left_le_2: "steps_left p \<le> 2"
  by (cases p) simp_all

lemma steps_left_0: "steps_left p = 0 \<Longrightarrow> p = PcDone"
  by (cases p) simp_all

lemma body_runs_not_body:
  "\<not> is_listening s \<Longrightarrow> no_start evs \<Longrightarrow> i < length (workers s) \<Longrightarrow>
   steps_left (workers s ! i) \<le> 1 \<Longrightarrow> body_runs i s evs = 0"
proof (induction evs arbitrary: s)
  case Nil
  show ?case by simp
next
  case (Cons e evs)
  from Cons.prems have e: "\<not> is_start e" and evs: "no_start evs"
    by (simp_all add: no_start_def)
  have "steps_left (workers (step e s) ! i) \<le> 1"
    using step_steps_left [of s e i] Cons.prems e by simp
  then have "body_runs i (step e s) evs = 0"
    using Cons.prems e evs by (intro Cons.IH) (simp_all add: step_flag_off step_workers_length)
  moreover from Cons.prems have "workers s ! i \<noteq> PcBody"
    by auto
  ultimately show ?case by simp
qed

lemma body_runs_le_1:
  "\<not> is_listening s \<Longrightarrow> no_start evs \<Longrightarrow> i < length (workers s) \<Longrightarrow> body_runs i s evs \<le> 1"
proof (induction evs arbitrary: s)
  case Nil
  show ?case by simp
next
  case (Cons e evs)
  from Cons.prems have e: "\<not> is_start e" and evs: "no_start evs"
    by (simp_all add: no_start_def)
  have off: "\<not> is_listening (step e s)" and len: "i < length (workers (step e s))"
    using Cons.prems e by (simp_all add: step_flag_off step_workers_length)
  show ?case
  proof (cases "is_tick i e \<and> workers s ! i = PcBody")
    case True
    then have "steps_left (workers (step e s) ! i) \<le> 1"
      using step_steps_left [of s e i] Cons.prems e by simp
    then have "body_runs i (step e s) evs = 0"
      using off evs len by (intro body_runs_not_body)
    then show ?thesis by simp
  next
    case False
    moreover have "body_runs i (step e s) evs \<le> 1"
      using off evs len by (rule Cons.IH)
    ultimately show ?thesis by auto
  qed
qed


lemma step_done:
  "i < length (workers s) \<Longrightarrow> workers s ! i = PcDone \<Longrightarrow>
   workers (step e s) ! i = PcDone \<and> i < length (workers (step e s))"
proof (cases e)
  case RunAfter
  then show "i < length (workers s) \<Longrightarrow> workers s ! i = PcDone \<Longrightarrow> ?thesis"
    by (simp add: run_callback_workers split: list.splits)
next
  case (Tick j w)
  then show "i < length (workers s) \<Longrightarrow> workers s ! i = PcDone \<Longrightarrow> ?thesis"
    by (cases "i = j") (simp_all add: split_beta recognize_speech_workers)
qed (simp_all add: handler_defs Let_def nth_append split: handler_splits)

lemma run_done:
  "i < length (workers s) \<Longrightarrow> workers s ! i = PcDone \<Longrightarrow>
   workers (run s evs) ! i = PcDone \<and> body_runs i s evs = 0"
proof (induction evs arbitrary: s)
  case Nil
  then show ?case by simp
next
  case (Cons e evs)
  from Cons.prems have "workers (step e s) ! i = PcDone" "i < length (workers (step e s))"
    by (simp_all add: step_done)
  then have "workers (run (step e s) evs) ! i = PcDone \<and> body_runs i (step e s) evs = 0"
    by (intro Cons.IH)
  with Cons.prems show ?case by simp
qed

lemma enters_body_iff:
  "(fst (recognize_speech w p s) = PcBody) = (p = PcTest \<and> is_listening s)"
  by (cases p) (simp_all add: handler_defs Let_def split: handler_splits)

subsection \<open>How errors are handled\<close>

lemma check_model_errors:
  "(\<not> exists \<longrightarrow>
      new_events s (check_model exists load s) =
        [Log DEBUG (ascii ''Checking model at path: '' @ model_path_var s),
         PathExists (model_path_var s) False]
        @ reported (ascii ''Model path does not exist: '') (ascii ''Model Error'')
            (ascii ''Model directory not found: '') (model_path_var s)) \<and>
   (exists \<and> load = Some e \<longrightarrow>
      new_events s (check_model exists load s) =
        [Log DEBUG (ascii ''Checking model at path: '' @ model_path_var s),
         PathExists (model_path_var s) True,
         Log DEBUG (ascii ''Loading Vosk model...''),
         ModelNew (model_path_var s) False]
        @ reported (ascii ''Error loading Vosk model: '') (ascii ''Model Error'')
            (ascii ''Failed to load Vosk model: '') e)"
  by (simp add: check_model_def new_events_def reported_def Let_def)

lemma start_listening_errors:
  "\<not> is_listening s \<and>
   (pa = Inl e \<or> (pa = Inr a \<and> (rec = Some e \<or> (rec = None \<and> th = Some e)))) \<longrightarrow>
      new_events s (start_listening pa rec th s) =
        [Log DEBUG (ascii ''Starting speech recognition''), PyAudioNew]
        @ (if pa = Inl e then [] else [RecognizerNew (model s) 16000])
        @ (if pa = Inr a \<and> rec = None then [ThreadStart (length (workers s))] else [])
        @ reported (ascii ''Error starting speech recognition: '') (ascii ''Start Error'')
            (ascii ''Failed to start speech recognition: '') e \<and>
      \<not> is_listening (start_listening pa rec th s) \<and>
      workers (start_listening pa rec th s) = workers s"
  by (auto simp add: start_listening_def start_failed_def new_events_def reported_def Let_def)

lemma save_transcript_errors:
  "strip (transcript_text s) \<noteq> [] \<and> filename \<noteq> [] \<and>
   (open_r = Some e \<or> (open_r = None \<and> write_r = Some e)) \<longrightarrow>
      new_events s (save_transcript filename open_r write_r s) =
        [AskSaveAsFilename, Log DEBUG (ascii ''Saving transcript to '' @ filename),
         FileOpenWrite filename]
        @ (if open_r = None then [FileWrite filename (strip (transcript_text s))] else [])
        @ reported (ascii ''Error saving transcript: '') (ascii ''Save Error'')
            (ascii ''Failed to save transcript: '') e"
  by (auto simp add: save_transcript_def save_failed_def new_events_def reported_def Let_def)

lemma recognize_speech_errors:
  "(audio s \<noteq> None \<and> (stream_open w = Inl e \<or> (stream_open w = Inr h \<and> stream_start w = Some e)) \<longrightarrow>
      new_events s (snd (recognize_speech w PcOpen s)) =
        [Log DEBUG (ascii ''Starting speech recognition thread''),
         StreamOpen PaInt16 1 16000 True 8000]
        @ (if stream_open w = Inl e then [] else [StreamStartStream])
        @ [Log ERROR (ascii ''Error in speech recognition thread: '' @ e)] \<and>
      fst (recognize_speech w PcOpen s) = PcDone \<and>
      \<not> is_listening (snd (recognize_speech w PcOpen s)) \<and>
      last (after_queue (snd (recognize_speech w PcOpen s))) =
        CbUpdateStatus (ascii ''Error'') (ascii ''red'')) \<and>
   (new_events s (snd (recognize_speech w (PcExcept e) s)) =
        Log ERROR (ascii ''Error in recognition loop: '' @ e)
        # (if is_listening s then [] else [Log DEBUG (ascii ''Recognition thread exiting'')])) \<and>
   (fst (recognize_speech w (PcExcept e) s) = (if is_listening s then PcTest else PcDone)) \<and>
   (fst (recognize_speech w PcTest s) = (if is_listening s then PcBody else PcDone)) \<and>
   \<not> list_ex is_box (new_events s (snd (recognize_speech w p s)))"
proof -
  have "\<not> list_ex is_box (new_events s (snd (recognize_speech w p s)))"
    by (cases p) (simp_all add: handler_defs new_events_def Let_def split: handler_splits)
  then show ?thesis
    by (auto simp add: thread_failed_def thread_exit_def new_events_def Let_def)
qed

subsection \<open>The sample sessions\<close>

lemma listening_state:
  "attrs listening =
     (True, Some 0, Some (Model (ascii ''./model'')),
      Some (Some (Model (ascii ''./model'')), 16000), Some 1, Some 7, [PcBody]) \<and>
   widgets listening =
     (DISABLED, NORMAL, DISABLED, ascii ''Status: Ready'', ascii ''gray'', [], [],
      ascii ''./model'')"
  by (simp add: listening_def quiet_def main_def init_def handler_defs Let_def attrs_def
      widgets_def)

lemma listening_fields [simp]:
  "is_listening listening" "thread listening = Some 0"
  "model listening = Some (Model (ascii ''./model''))"
  "recognizer listening = Some (Some (Model (ascii ''./model'')), 16000)"
  "audio listening = Some 1" "stream listening = Some 7" "workers listening = [PcBody]"
  "start_button listening = DISABLED" "stop_button listening = NORMAL"
  "check_model_button listening = DISABLED" "transcript_text listening = []"
  using listening_state by (simp_all add: attrs_def widgets_def)

lemma stopped_fields [simp]:
  "\<not> is_listening stopped" "workers stopped = [PcBody]" "start_button stopped = NORMAL"
  "stop_button stopped = DISABLED" "audio stopped = None" "stream stopped = Some 7"
  "model stopped = Some (Model (ascii ''./model''))"
  by (simp_all add: stopped_def handler_defs Let_def)

lemma listening_trace_events:
  "StreamOpen PaInt16 1 16000 True 8000 \<in> set (trace listening)"
  "RecognizerNew (Some (Model (ascii ''./model''))) 16000 \<in> set (trace listening)"
  by (simp_all add: listening_def quiet_def main_def init_def handler_defs Let_def)

section \<open>The properties of the specification\<close>

text \<open>
  C1. The transcript buffer is append-only until cleared. \<open>_add_transcript_impl\<close> keeps
  the content and inserts after it, \<open>clear_transcript\<close> empties the buffer, and every
  other step of the application (a handler, a deferred callback, a step of a recognition
  thread) leaves the old content as a prefix of the new one. So over any run without a
  press of the clear button the content at the start is a prefix of the content at the end.
\<close>

theorem transcript_append_only:
  "prefix (transcript_text s) (transcript_text (add_transcript_impl text s)) \<and>
   transcript_text (clear_transcript s) = [] \<and>
   (prefix (transcript_text s) (transcript_text (step e s)) \<or> e = ClickClear) \<and>
   (ClickClear \<notin> set evs \<longrightarrow> prefix (transcript_text s) (transcript_text (run s evs)))"
  by (simp add: add_transcript_impl_prefix step_transcript run_transcript clear_transcript_def
      text_delete_all_def)

theorem transcript_append_only_witness:
  "ClickClear \<notin> set [ClickBrowse [], RunAfter] \<and>
   transcript_text (add_transcript (ascii ''hi'') (init\<lparr>transcript_text := ascii ''a''\<rparr>))
     = ascii ''a'' \<and>
   transcript_text
     (run (add_transcript (ascii ''hi'') (init\<lparr>transcript_text := ascii ''a''\<rparr>))
        [ClickBrowse [], RunAfter])
     = ascii ''a hi'' @ nl"
  using transcript_append_only
    [of "add_transcript (ascii ''hi'') (init\<lparr>transcript_text := ascii ''a''\<rparr>)"
      "[]" RunAfter "[ClickBrowse [], RunAfter]"]
  by (simp add: init_def handler_defs callback_defs Let_def text_insert_end_def
      ascii_def strip_def py_isspace_def nl_def text_get_def)

text \<open>
  C2, in the form that holds. Cancellation is the flag \<open>is_listening\<close>, read at the test of every
  iteration and in the handler of the loop: a step of the thread arrives at the loop body
  exactly when it is the test and finds the flag set. Once the flag is off, and as long as
  \<open>start_listening\<close> is not called again, a thread runs the loop body at most once more,
  and it has left the function after two further steps. A thread that has left the
  function stays there and never runs the body again, whatever happens.
\<close>

theorem cancellation_by_flag:
  "((fst (recognize_speech w p s) = PcBody) = (p = PcTest \<and> is_listening s)) \<and>
   (\<not> is_listening s \<and> i < length (workers s) \<and> no_start evs \<longrightarrow>
      body_runs i s evs \<le> 1 \<and> (2 \<le> ticks i evs \<longrightarrow> workers (run s evs) ! i = PcDone)) \<and>
   (i < length (workers s) \<and> workers s ! i = PcDone \<longrightarrow>
      workers (run s evs) ! i = PcDone \<and> body_runs i s evs = 0)"
proof -
  have off: "body_runs i s evs \<le> 1 \<and> (2 \<le> ticks i evs \<longrightarrow> workers (run s evs) ! i = PcDone)"
    if a: "\<not> is_listening s" "no_start evs" "i < length (workers s)"
  proof
    from a show "body_runs i s evs \<le> 1"
      by (rule body_runs_le_1)
    show "2 \<le> ticks i evs \<longrightarrow> workers (run s evs) ! i = PcDone"
    proof
      assume "2 \<le> ticks i evs"
      moreover have "steps_left (workers s ! i) \<le> 2"
        by (rule steps_left_le_2)
      moreover from a
      have "steps_left (workers (run s evs) ! i) \<le> steps_left (workers s ! i) - ticks i evs"
        by (rule run_steps_left)
      ultimately have "steps_left (workers (run s evs) ! i) = 0"
        by simp
      then show "workers (run s evs) ! i = PcDone"
        by (rule steps_left_0)
    qed
  qed
  have fin: "workers (run s evs) ! i = PcDone \<and> body_runs i s evs = 0"
    if "i < length (workers s)" "workers s ! i = PcDone"
    using that by (rule run_done)
  from off fin show ?thesis
    by (simp add: enters_body_iff)
qed

theorem cancellation_by_flag_witness:
  "\<not> is_listening stopped \<and> 0 < length (workers stopped) \<and>
   no_start [Tick 0 quiet, RunAfter, Tick 0 quiet, Tick 0 quiet] \<and>
   body_runs 0 stopped [Tick 0 quiet, RunAfter, Tick 0 quiet, Tick 0 quiet] = 1 \<and>
   2 \<le> ticks 0 [Tick 0 quiet, RunAfter, Tick 0 quiet, Tick 0 quiet] \<and>
   workers (run stopped [Tick 0 quiet, RunAfter, Tick 0 quiet, Tick 0 quiet]) ! 0 = PcDone"
proof -
  have "body_runs 0 stopped [Tick 0 quiet, RunAfter, Tick 0 quiet, Tick 0 quiet] = 1 +
      body_runs 0 (step (Tick 0 quiet) stopped) [RunAfter, Tick 0 quiet, Tick 0 quiet]"
    by simp
  moreover have "no_start [Tick 0 quiet, RunAfter, Tick 0 quiet, Tick 0 quiet]"
    and "2 \<le> ticks 0 [Tick 0 quiet, RunAfter, Tick 0 quiet, Tick 0 quiet]"
    by (simp_all add: no_start_def ticks_def)
  moreover have "workers (step (Tick 0 quiet) stopped) = [PcTest]"
    and "\<not> is_listening (step (Tick 0 quiet) stopped)"
    by (simp_all add: quiet_def)
  ultimately show ?thesis
    using cancellation_by_flag
        [of quiet PcTest stopped 0 "[Tick 0 quiet, RunAfter, Tick 0 quiet, Tick 0 quiet]"]
      cancellation_by_flag
        [of quiet PcTest "step (Tick 0 quiet) stopped" 0 "[RunAfter, Tick 0 quiet, Tick 0 quiet]"]
    by (simp add: no_start_def)
qed

text \<open>
  C2 as the specification words it fails: the flag is shared by all threads and can be set again.
  In the sample session the user presses stop while the thread is about to read and then
  start before the thread has tested the flag again; the old thread then runs the loop
  body twice in its next three steps and is still in the loop after six.
\<close>

theorem restart_keeps_old_thread_reading:
  "\<not> is_listening stopped \<and> workers stopped = [PcBody] \<and>
   body_runs 0 stopped [ClickStart (Inr 2) None None, Tick 0 quiet, Tick 0 quiet, Tick 0 quiet] = 2 \<and>
   workers (run stopped [ClickStart (Inr 2) None None, Tick 0 quiet, Tick 0 quiet, Tick 0 quiet,
      Tick 0 quiet, Tick 0 quiet, Tick 0 quiet]) ! 0 = PcBody"
  by (simp add: quiet_def handler_defs Let_def)

text \<open>
  C3, in the form that holds. An error raised in \<open>check_model\<close>, \<open>start_listening\<close> or
  \<open>save_transcript\<close> is caught there, logged as an error and shown in a modal error box,
  and the failed call is made once only: the events of the handler are the attempt followed
  by the log record and the box. An error raised in the recognition thread is logged as an
  error and no box is shown by any step of the thread: a failure to open or start the
  stream ends the thread, clears \<open>is_listening\<close> and schedules the status "Error"; an
  error in the loop body ends the loop only when \<open>is_listening\<close> is off, and otherwise
  the thread goes back to the test of the loop and, the flag being set, into the body.
\<close>

theorem errors_logged_and_shown:
  "((\<not> exists \<longrightarrow>
      new_events s (check_model exists load s) =
        [Log DEBUG (ascii ''Checking model at path: '' @ model_path_var s),
         PathExists (model_path_var s) False]
        @ reported (ascii ''Model path does not exist: '') (ascii ''Model Error'')
            (ascii ''Model directory not found: '') (model_path_var s)) \<and>
   (exists \<and> load = Some e \<longrightarrow>
      new_events s (check_model exists load s) =
        [Log DEBUG (ascii ''Checking model at path: '' @ model_path_var s),
         PathExists (model_path_var s) True,
         Log DEBUG (ascii ''Loading Vosk model...''),
         ModelNew (model_path_var s) False]
        @ reported (ascii ''Error loading Vosk model: '') (ascii ''Model Error'')
            (ascii ''Failed to load Vosk model: '') e)) \<and>
   (\<not> is_listening s \<and>
    (pa = Inl e \<or> (pa = Inr a \<and> (rec = Some e \<or> (rec = None \<and> th = Some e)))) \<longrightarrow>
      new_events s (start_listening pa rec th s) =
        [Log DEBUG (ascii ''Starting speech recognition''), PyAudioNew]
        @ (if pa = Inl e then [] else [RecognizerNew (model s) 16000])
        @ (if pa = Inr a \<and> rec = None then [ThreadStart (length (workers s))] else [])
        @ reported (ascii ''Error starting speech recognition: '') (ascii ''Start Error'')
            (ascii ''Failed to start speech recognition: '') e \<and>
      \<not> is_listening (start_listening pa rec th s) \<and>
      workers (start_listening pa rec th s) = workers s) \<and>
   (strip (transcript_text s) \<noteq> [] \<and> filename \<noteq> [] \<and>
    (open_r = Some e \<or> (open_r = None \<and> write_r = Some e)) \<longrightarrow>
      new_events s (save_transcript filename open_r write_r s) =
        [AskSaveAsFilename, Log DEBUG (ascii ''Saving transcript to '' @ filename),
         FileOpenWrite filename]
        @ (if open_r = None then [FileWrite filename (strip (transcript_text s))] else [])
        @ reported (ascii ''Error saving transcript: '') (ascii ''Save Error'')
            (ascii ''Failed to save transcript: '') e) \<and>
   ((audio s \<noteq> None \<and>
     (stream_open w = Inl e \<or> (stream_open w = Inr h \<and> stream_start w = Some e)) \<longrightarrow>
      new_events s (snd (recognize_speech w PcOpen s)) =
        [Log DEBUG (ascii ''Starting speech recognition thread''),
         StreamOpen PaInt16 1 16000 True 8000]
        @ (if stream_open w = Inl e then [] else [StreamStartStream])
        @ [Log ERROR (ascii ''Error in speech recognition thread: '' @ e)] \<and>
      fst (recognize_speech w PcOpen s) = PcDone \<and>
      \<not> is_listening (snd (recognize_speech w PcOpen s)) \<and>
      last (after_queue (snd (recognize_speech w PcOpen s))) =
        CbUpdateStatus (ascii ''Error'') (ascii ''red'')) \<and>
   (new_events s (snd (recognize_speech w (PcExcept e) s)) =
        Log ERROR (ascii ''Error in recognition loop: '' @ e)
        # (if is_listening s then [] else [Log DEBUG (ascii ''Recognition thread exiting'')])) \<and>
   (fst (recognize_speech w (PcExcept e) s) = (if is_listening s then PcTest else PcDone)) \<and>
   (fst (recognize_speech w PcTest s) = (if is_listening s then PcBody else PcDone)) \<and>
   \<not> list_ex is_box (new_events s (snd (recognize_speech w p s))))"
  using check_model_errors [of exists s load e] start_listening_errors [of s pa e a rec th]
    save_transcript_errors [of s filename open_r e write_r] recognize_speech_errors [of s w e h p]
  by (intro conjI) blast+

theorem errors_logged_and_shown_witness:
  "new_events main (check_model False None main) =
     [Log DEBUG (ascii ''Checking model at path: '' @ ascii ''./model''),
      PathExists (ascii ''./model'') False,
      Log ERROR (ascii ''Model path does not exist: '' @ ascii ''./model''),
      MessageBox ShowError (ascii ''Model Error'')
        (ascii ''Model directory not found: '' @ ascii ''./model'')] \<and>
   new_events main (start_listening (Inl (ascii ''no device'')) None None main) =
     [Log DEBUG (ascii ''Starting speech recognition''), PyAudioNew,
      Log ERROR (ascii ''Error starting speech recognition: '' @ ascii ''no device''),
      MessageBox ShowError (ascii ''Start Error'')
        (ascii ''Failed to start speech recognition: '' @ ascii ''no device'')] \<and>
   fst (recognize_speech broken (PcExcept (ascii ''boom'')) listening) = PcTest"
  using errors_logged_and_shown [of False main None "ascii ''no device''"
      "Inl (ascii ''no device'')" 0 None None "[]" None None broken 0 PcTest]
  by (simp add: main_def init_def reported_def)

text \<open>
  C3 as the specification words it fails for the recognition loop: in the sample session with a
  microphone whose reads raise, the error is logged, no box is shown and the read is made
  again.
\<close>

theorem loop_error_not_shown_and_read_again:
  "is_listening listening \<and> workers listening = [PcBody] \<and>
   new_events listening
     (run listening [Tick 0 broken, Tick 0 broken, Tick 0 broken, Tick 0 broken]) =
     [StreamRead 4000 False, Log ERROR (ascii ''Error in recognition loop: '' @ ascii ''boom''),
      StreamRead 4000 False]"
  by (simp add: broken_def new_events_def thread_exit_def)

text \<open>
  C4. The start button is disabled when the widgets are created and when the main loop
  is entered, and in every state the application reaches from there the start button is
  enabled only if the application holds a model that an earlier call of \<open>Model\<close> on the
  path of the entry constructed successfully.
\<close>

theorem start_disabled_until_model_loads:
  "start_button init = DISABLED \<and> start_button main = DISABLED \<and>
   (start_button (run main evs) = NORMAL \<longrightarrow>
      (\<exists>p. model (run main evs) = Some (Model p) \<and>
           ModelNew p True \<in> set (trace (run main evs))))"
proof -
  have "model_inv (run main evs)"
    using main_model_inv by (rule run_model_inv)
  moreover have "\<exists>p. m = Model p" for m
    by (cases m) simp
  ultimately have "start_button (run main evs) = NORMAL \<longrightarrow>
      (\<exists>p. model (run main evs) = Some (Model p) \<and>
           ModelNew p True \<in> set (trace (run main evs)))"
    unfolding model_inv_def by (metis option.exhaust)
  then show ?thesis
    by (simp add: main_def init_def)
qed

theorem start_disabled_until_model_loads_witness:
  "start_button (run main [ClickCheckModel True None]) = NORMAL \<and>
   model (run main [ClickCheckModel True None]) = Some (Model (ascii ''./model'')) \<and>
   ModelNew (ascii ''./model'') True \<in> set (trace (run main [ClickCheckModel True None]))"
  using start_disabled_until_model_loads [of "[ClickCheckModel True None]"]
  by (simp add: main_def init_def handler_defs Let_def)

text \<open>
  C5, in the form that holds. The argument vector that \<open>build_executable\<close> passes to the
  subprocess begins with \<open>pyinstaller\<close>, \<open>--name=\<close> and the output name, \<open>--clean\<close>,
  and ends with the script path; between them \<open>--onefile\<close>, \<open>--windowed\<close>, \<open>--icon=\<close>
  and \<open>--add-data=\<close> are present according to the options. It does not depend on how
  the subprocess ends.
\<close>

theorem pyinstaller_argument_vector:
  "argv (build_executable os call script_path output_name one_file console icon include_model
      model_path) =
     [ascii ''pyinstaller'',
      ascii ''--name='' @ (if truthy output_name then str_of output_name
                          else fst (splitext os (basename os script_path))),
      ascii ''--clean'']
     @ (if one_file then [ascii ''--onefile''] else [])
     @ (if console then [] else [ascii ''--windowed''])
     @ (if truthy icon \<and> path_exists os (str_of icon) then [ascii ''--icon='' @ str_of icon]
        else [])
     @ (if include_model \<and> truthy model_path \<and> path_exists os (str_of model_path)
        then [ascii ''--add-data='' @ str_of model_path @ pathsep os @ ascii ''model/''
                @ basename os (str_of model_path)]
        else [])
     @ [script_path]"
  by (cases call) (simp_all add: build_executable_def pyinstaller_args_def Let_def)

theorem pyinstaller_argument_vector_witness:
  "argv (build_executable (posix (\<lambda>p. True) (ascii ''/w'')) Returned (ascii ''src/app.py'') None
      True False None True (Some (ascii ''model/en''))) =
     [ascii ''pyinstaller'', ascii ''--name=app'', ascii ''--clean'', ascii ''--onefile'',
      ascii ''--windowed'', ascii ''--add-data=model/en:model/en'', ascii ''src/app.py'']"
  using pyinstaller_argument_vector [of "posix (\<lambda>p. True) (ascii ''/w'')" Returned
      "ascii ''src/app.py''" None True False None True "Some (ascii ''model/en'')"]
  by (simp add: posix_def posix_basename_def posix_splitext_def ascii_def Let_def)

text \<open>
  C5 as the specification words it fails: two builds of the same script with different options
  pass different argument vectors.
\<close>

theorem argument_vector_depends_on_options:
  "argv (build_executable (posix (\<lambda>p. True) (ascii ''/w'')) Returned (ascii ''app.py'') None
      True False None False None) =
     [ascii ''pyinstaller'', ascii ''--name=app'', ascii ''--clean'', ascii ''--onefile'',
      ascii ''--windowed'', ascii ''app.py''] \<and>
   argv (build_executable (posix (\<lambda>p. True) (ascii ''/w'')) Returned (ascii ''app.py'')
      (Some (ascii ''stt'')) False True None False None) =
     [ascii ''pyinstaller'', ascii ''--name=stt'', ascii ''--clean'', ascii ''app.py''] \<and>
   argv (build_executable (posix (\<lambda>p. True) (ascii ''/w'')) Returned (ascii ''app.py'') None
      True False None False None) \<noteq>
   argv (build_executable (posix (\<lambda>p. True) (ascii ''/w'')) Returned (ascii ''app.py'')
      (Some (ascii ''stt'')) False True None False None)"
  by (simp add: build_executable_def pyinstaller_args_def posix_def posix_basename_def
      posix_splitext_def ascii_def Let_def)

text \<open>
  C6. Every read of the stream anywhere in a run of the application asks for 4000 frames,
  and each pass of the loop body begins with such a read. No step of a recognition thread
  changes a widget; it only appends to the queue of deferred callbacks, where a completed
  utterance is left as a call of \<open>_add_transcript_impl\<close> and a partial one as a call
  of \<open>_update_partial_impl\<close>.
\<close>

theorem fixed_chunks_and_deferred_results:
  "(StreamRead n b \<in> set (trace (run main evs)) \<longrightarrow> n = 4000) \<and>
   take 1 (new_events s (snd (recognize_speech w PcBody s))) = [StreamRead 4000 False] \<and>
   widgets (snd (recognize_speech w p s)) = widgets s \<and>
   widgets (step (Tick i w) s) = widgets s \<and>
   prefix (after_queue s) (after_queue (snd (recognize_speech w p s))) \<and>
   (loop_body w = ReadData d (Final (Inr t)) \<and> d \<noteq> [] \<and> t \<noteq> [] \<longrightarrow>
      after_queue (snd (recognize_speech w PcBody s)) =
        after_queue s @ [CbLogAppend DEBUG (ascii ''Recognized: '' @ t), CbAddTranscript t]) \<and>
   (loop_body w = ReadData d (Partial (Inr t)) \<and> d \<noteq> [] \<and> t \<noteq> [] \<longrightarrow>
      after_queue (snd (recognize_speech w PcBody s)) = after_queue s @ [CbUpdatePartial t])"
proof -
  have "StreamRead n b \<in> set (trace (run main evs)) \<longrightarrow> n = 4000"
    using main_run_params [of "StreamRead n b" evs] by simp
  moreover have "take 1 (new_events s (snd (recognize_speech w PcBody s))) = [StreamRead 4000 False]"
    by (simp add: new_events_def Let_def split: handler_splits)
  ultimately show ?thesis
    by (simp add: recognize_speech_widgets tick_widgets recognize_speech_after del: step.simps)
qed

theorem fixed_chunks_and_deferred_results_witness:
  "StreamRead 4000 False
     \<in> set (trace (run main [ClickCheckModel True None, ClickStart (Inr 1) None None,
          Tick 0 heard, Tick 0 heard, Tick 0 heard])) \<and>
   after_queue (snd (recognize_speech heard PcBody listening)) =
     after_queue listening
       @ [CbLogAppend DEBUG (ascii ''Recognized: '' @ ascii ''hello''),
          CbAddTranscript (ascii ''hello'')] \<and>
   transcript_text (run_callback (CbAddTranscript (ascii ''hello'')) listening)
     = ascii ''hello'' @ nl"
  using fixed_chunks_and_deferred_results [of 4000 False
      "[ClickCheckModel True None, ClickStart (Inr 1) None None, Tick 0 heard, Tick 0 heard,
        Tick 0 heard]" listening heard PcBody 0 "[0]" "ascii ''hello''"]
  by (simp add: heard_def main_def init_def handler_defs callback_defs Let_def
      text_insert_end_def text_get_def nl_def strip_def py_isspace_def ascii_def)

text \<open>
  C7. Stop re-enables start. A call of \<open>stop_listening\<close> made while \<open>is_listening\<close> is
  true clears \<open>is_listening\<close>; it returns (rather than raising) exactly when there is no
  audio object or \<open>terminate\<close> does not raise, and when it returns the start button is
  enabled and the stop button disabled.
\<close>

theorem stop_reenables_start:
  "is_listening s \<longrightarrow>
     \<not> is_listening (fst (stop_listening stop_r close_r term_r s)) \<and>
     ((snd (stop_listening stop_r close_r term_r s) = None) = (audio s = None \<or> term_r = None)) \<and>
     (snd (stop_listening stop_r close_r term_r s) = None \<longrightarrow>
        start_button (fst (stop_listening stop_r close_r term_r s)) = NORMAL \<and>
        stop_button (fst (stop_listening stop_r close_r term_r s)) = DISABLED)"
  by (auto simp add: handler_defs Let_def split: handler_splits)

theorem stop_reenables_start_witness:
  "is_listening listening \<and> snd (stop_listening None None None listening) = None \<and>
   start_button listening = DISABLED \<and>
   start_button (fst (stop_listening None None None listening)) = NORMAL \<and>
   stop_button (fst (stop_listening None None None listening)) = DISABLED \<and>
   \<not> is_listening (fst (stop_listening None None None listening))"
  using stop_reenables_start [of listening None None None]
  by simp

text \<open>
  C8. Every microphone stream opened in a run of the application is opened as input with
  16-bit samples, one channel and 16000 Hz, every recognizer is constructed with 16000 Hz,
  and a recognition thread that has an audio object opens its stream first thing, with
  exactly these arguments.
\<close>

theorem microphone_stream_parameters:
  "(StreamOpen f c r i n \<in> set (trace (run main evs)) \<longrightarrow>
      f = PaInt16 \<and> c = 1 \<and> r = 16000 \<and> i) \<and>
   (RecognizerNew m r' \<in> set (trace (run main evs)) \<longrightarrow> r' = 16000) \<and>
   (recognizer (run main evs) = Some (m', r'') \<longrightarrow> r'' = 16000) \<and>
   (audio s \<noteq> None \<longrightarrow>
      take 2 (new_events s (snd (recognize_speech w PcOpen s))) =
        [Log DEBUG (ascii ''Starting speech recognition thread''),
         StreamOpen PaInt16 1 16000 True 8000])"
proof -
  have "StreamOpen f c r i n \<in> set (trace (run main evs)) \<longrightarrow>
      f = PaInt16 \<and> c = 1 \<and> r = 16000 \<and> i"
    using main_run_params [of "StreamOpen f c r i n" evs] by auto
  moreover have "RecognizerNew m r' \<in> set (trace (run main evs)) \<longrightarrow> r' = 16000"
    using main_run_params [of "RecognizerNew m r'" evs] by simp
  moreover have "recognizer (run main evs) = Some (m', r'') \<longrightarrow> r'' = 16000"
    using run_rec_ok [OF main_rec_ok, of evs] by (simp add: rec_ok_def)
  moreover have "audio s \<noteq> None \<longrightarrow>
      take 2 (new_events s (snd (recognize_speech w PcOpen s))) =
        [Log DEBUG (ascii ''Starting speech recognition thread''),
         StreamOpen PaInt16 1 16000 True 8000]"
    by (simp add: new_events_def thread_failed_def Let_def split: handler_splits)
  ultimately show ?thesis
    by blast
qed

theorem microphone_stream_parameters_witness:
  "StreamOpen PaInt16 1 16000 True 8000 \<in> set (trace listening) \<and>
   RecognizerNew (Some (Model (ascii ''./model''))) 16000 \<in> set (trace listening) \<and>
   recognizer listening = Some (Some (Model (ascii ''./model'')), 16000)"
  using microphone_stream_parameters [of PaInt16 1 16000 True 8000
      "[ClickCheckModel True None, ClickStart (Inr 1) None None, Tick 0 quiet, Tick 0 quiet]"
      "Some (Model (ascii ''./model''))" 16000 "Some (Model (ascii ''./model''))" 16000
      listening quiet, folded listening_def]
    listening_trace_events
  by simp

text \<open>
  C9. \<open>start_listening\<close> while already listening and \<open>stop_listening\<close> while not
  listening do nothing: no attribute of the application (flag, thread, model, recognizer,
  audio object, stream, threads) and no widget changes, \<open>stop_listening\<close> returns, and the
  only effect of either call is one debug log record.
\<close>

theorem redundant_start_and_stop_do_nothing:
  "(is_listening s \<longrightarrow>
      attrs (start_listening pa rec th s) = attrs s \<and>
      widgets (start_listening pa rec th s) = widgets s \<and>
      new_events s (start_listening pa rec th s) =
        [Log DEBUG (ascii ''Already listening, ignoring start request'')]) \<and>
   (\<not> is_listening s \<longrightarrow>
      attrs (fst (stop_listening stop_r close_r term_r s)) = attrs s \<and>
      widgets (fst (stop_listening stop_r close_r term_r s)) = widgets s \<and>
      snd (stop_listening stop_r close_r term_r s) = None \<and>
      new_events s (fst (stop_listening stop_r close_r term_r s)) =
        [Log DEBUG (ascii ''Not listening, ignoring stop request'')])"
  by (simp add: start_listening_def stop_listening_def attrs_def widgets_def new_events_def)

theorem redundant_start_and_stop_do_nothing_witness:
  "is_listening listening \<and> \<not> is_listening main \<and>
   attrs (start_listening (Inr 2) None None listening) = attrs listening \<and>
   widgets (start_listening (Inr 2) None None listening) = widgets listening \<and>
   attrs (fst (stop_listening None None None main)) = attrs main \<and>
   widgets (fst (stop_listening None None None main)) = widgets main"
  using redundant_start_and_stop_do_nothing [of listening "Inr 2" None None None None None]
    redundant_start_and_stop_do_nothing [of main "Inr 2" None None None None None]
  by (simp add: main_def init_def)

text \<open>
  C10. Saving an empty transcript is a guarded no-op. When the text area holds only
  whitespace, \<open>save_transcript\<close> logs, shows the information box and does nothing else:
  no save dialog, no file opened or written, no attribute or widget changed. A file is
  opened or written only when the stripped transcript is not empty and the user gave a
  file name, it is that file, and what is written is the stripped transcript; and with
  both conditions, when the file opens, the write is made.
\<close>

theorem save_empty_transcript_is_noop:
  "((\<forall>c\<in>set (transcript_text s). py_isspace c) \<longrightarrow>
      new_events s (save_transcript filename open_r write_r s) =
        [Log DEBUG (ascii ''No transcript to save''),
         MessageBox ShowInfo (ascii ''Save Transcript'') (ascii ''No transcript to save.'')] \<and>
      attrs (save_transcript filename open_r write_r s) = attrs s \<and>
      widgets (save_transcript filename open_r write_r s) = widgets s) \<and>
   (FileWrite f c \<in> set (new_events s (save_transcript filename open_r write_r s)) \<or>
    FileOpenWrite f \<in> set (new_events s (save_transcript filename open_r write_r s)) \<longrightarrow>
      strip (transcript_text s) \<noteq> [] \<and> filename \<noteq> [] \<and> f = filename) \<and>
   (FileWrite f c \<in> set (new_events s (save_transcript filename open_r write_r s)) \<longrightarrow>
      c = strip (transcript_text s)) \<and>
   (strip (transcript_text s) \<noteq> [] \<and> filename \<noteq> [] \<and> open_r = None \<longrightarrow>
      FileWrite filename (strip (transcript_text s))
        \<in> set (new_events s (save_transcript filename open_r write_r s)))"
  by (auto simp add: save_transcript_def save_failed_def new_events_def attrs_def widgets_def
      Let_def strip_empty_iff [symmetric] split: option.splits)

theorem save_empty_transcript_is_noop_witness:
  "list_all py_isspace (transcript_text (main\<lparr>transcript_text := ascii ''  '' @ nl\<rparr>)) \<and>
   new_events (main\<lparr>transcript_text := ascii ''  '' @ nl\<rparr>)
     (save_transcript (ascii ''out.txt'') None None
        (main\<lparr>transcript_text := ascii ''  '' @ nl\<rparr>)) =
     [Log DEBUG (ascii ''No transcript to save''),
      MessageBox ShowInfo (ascii ''Save Transcript'') (ascii ''No transcript to save.'')] \<and>
   strip (transcript_text (main\<lparr>transcript_text := ascii ''hi'' @ nl\<rparr>)) \<noteq> [] \<and>
   FileWrite (ascii ''out.txt'') (ascii ''hi'')
     \<in> set (new_events (main\<lparr>transcript_text := ascii ''hi'' @ nl\<rparr>)
         (save_transcript (ascii ''out.txt'') None None
            (main\<lparr>transcript_text := ascii ''hi'' @ nl\<rparr>)))"
  using save_empty_transcript_is_noop [of "main\<lparr>transcript_text := ascii ''  '' @ nl\<rparr>"
      "ascii ''out.txt''" None None "ascii ''out.txt''" "ascii ''hi''"]
    save_empty_transcript_is_noop [of "main\<lparr>transcript_text := ascii ''hi'' @ nl\<rparr>"
      "ascii ''out.txt''" None None "ascii ''out.txt''" "ascii ''hi''"]
  by (simp add: main_def init_def ascii_def nl_def py_isspace_def strip_def list_all_iff)

end
